theory Spec2Isabelle
  imports Complex_Main
begin

section \<open>Strings and regular expressions\<close>

text \<open>
  Python strings are modelled as \<open>string\<close>, one \<open>char\<close> per code point; the model covers
  the code points below 256.  On that range \<open>\d\<close> is the ten ASCII digits, the letters
  that match an ASCII letter under \<open>re.IGNORECASE\<close> are its two ASCII cases, and
  \<open>str.strip()\<close> removes the code points 9-13, 28-32, 133 and 160.
\<close>

definition code :: "char \<Rightarrow> nat" where
  "code c = of_char c"

definition is_digit :: "char \<Rightarrow> bool" where
  "is_digit c = (48 \<le> code c \<and> code c \<le> 57)"

definition is_lower :: "char \<Rightarrow> bool" where
  "is_lower c = (97 \<le> code c \<and> code c \<le> 122)"

definition is_upper :: "char \<Rightarrow> bool" where
  "is_upper c = (65 \<le> code c \<and> code c \<le> 90)"

definition is_space :: "char \<Rightarrow> bool" where
  "is_space c = ((9 \<le> code c \<and> code c \<le> 13) \<or> (28 \<le> code c \<and> code c \<le> 32)
                  \<or> code c = 133 \<or> code c = 160)"

definition lower :: "char \<Rightarrow> char" where
  "lower c = (if is_upper c then char_of (code c + 32) else c)"

definition strip :: "string \<Rightarrow> string" where
  "strip s = rev (dropWhile is_space (rev (dropWhile is_space s)))"

text \<open>
  The patterns of \<open>utils/validation.py\<close> use character classes, concatenation,
  \<open>+\<close>, \<open>?\<close>, \<open>*\<close> and bounded repetition.  A pattern is a value of \<open>rexp\<close>;
  matching is by derivatives, with constructors that drop \<open>Zero\<close> and \<open>One\<close> on the way.
\<close>

datatype rexp =
    Zero
  | One
  | Atom "char \<Rightarrow> bool"
  | Plus rexp rexp
  | Times rexp rexp
  | Star rexp

fun nullable :: "rexp \<Rightarrow> bool" where
  "nullable Zero = False"
| "nullable One = True"
| "nullable (Atom p) = False"
| "nullable (Plus r s) = (nullable r \<or> nullable s)"
| "nullable (Times r s) = (nullable r \<and> nullable s)"
| "nullable (Star r) = True"

fun plus :: "rexp \<Rightarrow> rexp \<Rightarrow> rexp" where
  "plus Zero s = s"
| "plus r Zero = r"
| "plus r s = Plus r s"

fun times :: "rexp \<Rightarrow> rexp \<Rightarrow> rexp" where
  "times Zero s = Zero"
| "times r Zero = Zero"
| "times One s = s"
| "times r One = r"
| "times r s = Times r s"

fun deriv :: "char \<Rightarrow> rexp \<Rightarrow> rexp" where
  "deriv c Zero = Zero"
| "deriv c One = Zero"
| "deriv c (Atom p) = (if p c then One else Zero)"
| "deriv c (Plus r s) = plus (deriv c r) (deriv c s)"
| "deriv c (Times r s) =
     (if nullable r then plus (times (deriv c r) s) (deriv c s) else times (deriv c r) s)"
| "deriv c (Star r) = times (deriv c r) (Star r)"

text \<open>The whole string is a word of the pattern.\<close>

fun matches :: "rexp \<Rightarrow> string \<Rightarrow> bool" where
  "matches r [] = nullable r"
| "matches r (c # cs) = matches (deriv c r) cs"

text \<open>Some prefix of the string is a word of the pattern (an unanchored end).\<close>

fun matches_prefix :: "rexp \<Rightarrow> string \<Rightarrow> bool" where
  "matches_prefix r [] = nullable r"
| "matches_prefix r (c # cs) = (nullable r \<or> matches_prefix (deriv c r) cs)"

text \<open>
  \<open>re.match('^...$', s)\<close>: the pattern is anchored at both ends, and \<open>$\<close> also matches
  just before a newline that ends the string.
\<close>

definition re_match_anchored :: "rexp \<Rightarrow> string \<Rightarrow> bool" where
  "re_match_anchored r s =
     (matches r s \<or> (s \<noteq> [] \<and> last s = CHR 0x0A \<and> matches r (butlast s)))"

text \<open>\<open>re.search(p, s)\<close>: the pattern matches from some position of the string.\<close>

fun re_search :: "rexp \<Rightarrow> string \<Rightarrow> bool" where
  "re_search r [] = nullable r"
| "re_search r (c # cs) = (matches_prefix r (c # cs) \<or> re_search r cs)"

subsection \<open>Building patterns\<close>

definition chr :: "char \<Rightarrow> rexp" where
  "chr x = Atom (\<lambda>c. c = x)"

text \<open>A literal character under \<open>re.IGNORECASE\<close>.\<close>

definition chr_i :: "char \<Rightarrow> rexp" where
  "chr_i x = Atom (\<lambda>c. lower c = lower x)"

text \<open>\<open>.\<close> without \<open>re.DOTALL\<close>: any character but a newline.\<close>

definition dot :: rexp where
  "dot = Atom (\<lambda>c. c \<noteq> CHR 0x0A)"

fun seq :: "rexp list \<Rightarrow> rexp" where
  "seq [] = One"
| "seq [r] = r"
| "seq (r # rs) = Times r (seq rs)"

definition lit_i :: "string \<Rightarrow> rexp" where
  "lit_i s = seq (map chr_i s)"

definition opt :: "rexp \<Rightarrow> rexp" where
  "opt r = Plus One r"

definition plus1 :: "rexp \<Rightarrow> rexp" where
  "plus1 r = Times r (Star r)"

text \<open>\<open>r{n}\<close>, then \<open>r{n,}\<close> and \<open>r{n,m}\<close>.\<close>

primrec exactly :: "nat \<Rightarrow> rexp \<Rightarrow> rexp" where
  "exactly 0 r = One"
| "exactly (Suc n) r = Times r (exactly n r)"

primrec upto :: "nat \<Rightarrow> rexp \<Rightarrow> rexp" where
  "upto 0 r = One"
| "upto (Suc n) r = Plus One (Times r (upto n r))"

definition at_least :: "nat \<Rightarrow> rexp \<Rightarrow> rexp" where
  "at_least n r = Times (exactly n r) (Star r)"

definition between :: "nat \<Rightarrow> nat \<Rightarrow> rexp \<Rightarrow> rexp" where
  "between n m r = Times (exactly n r) (upto (m - n) r)"

section \<open>Input validation (utils/validation.py)\<close>

text \<open>
  The honeypot is the field \<open>website\<close> of the schema, a \<open>str\<close> with default \<open>""\<close>, so
  the test \<open>honeypot_value is None\<close> never holds and the check is emptiness.
\<close>

definition validate_honeypot :: "string \<Rightarrow> bool" where
  "validate_honeypot honeypot_value = (honeypot_value = '''')"

text \<open>\<open>^[a-zA-Z0-9._%+-]+@[a-zA-Z0-9.-]+\.[a-zA-Z]{2,}$\<close>\<close>

definition is_alpha :: "char \<Rightarrow> bool" where
  "is_alpha c = (is_lower c \<or> is_upper c)"

definition email_pattern :: rexp where
  "email_pattern =
     seq [plus1 (Atom (\<lambda>c. is_alpha c \<or> is_digit c \<or> c \<in> set ''._%+-'')),
          chr (CHR ''@''),
          plus1 (Atom (\<lambda>c. is_alpha c \<or> is_digit c \<or> c \<in> set ''.-'')),
          chr (CHR ''.''),
          at_least 2 (Atom is_alpha)]"

definition validate_email_format :: "string \<Rightarrow> bool" where
  "validate_email_format email = re_match_anchored email_pattern email"

text \<open>\<open>re.sub(r'[^\d+]', '', phone)\<close> keeps the digits and the plus signs.\<close>

definition clean_phone :: "string \<Rightarrow> string" where
  "clean_phone phone = filter (\<lambda>c. is_digit c \<or> c = CHR ''+'') phone"

text \<open>\<open>^(\+?\d{10,15})$\<close>\<close>

definition phone_pattern :: rexp where
  "phone_pattern = Times (opt (chr (CHR ''+''))) (between 10 15 (Atom is_digit))"

definition validate_phone_format :: "string \<Rightarrow> bool" where
  "validate_phone_format phone =
     (let cleaned_phone = clean_phone phone in
      if length cleaned_phone < 10 \<or> length cleaned_phone > 15 then False
      else re_match_anchored phone_pattern cleaned_phone)"

section \<open>Exceptions\<close>

text \<open>
  The exceptions the modelled code raises or receives from its collaborators; all are
  subclasses of Python's \<open>Exception\<close>, \<open>HTTPException\<close> included.  A function that may
  raise returns \<open>exn + 'a\<close>, with \<open>Inl\<close> the exception.  \<open>RequestValidationError\<close> is what
  the web framework raises for a body that fails the schema; it carries the failed
  fields with their messages.  \<open>ArgumentError\<close> is what the database library raises for
  a statement sent with a bound value that its text does not name.
\<close>

datatype exn =
    HTTPException nat string
  | ValueError string
  | DatabaseError
  | IntegrityError
  | OSError
  | SMTPException
  | ZeroDivisionError
  | AttributeError
  | ArgumentError
  | RequestValidationError "(string \<times> string) list"

text \<open>
  The closing clauses of an endpoint,
  \<open>except HTTPException: raise\<close> and \<open>except Exception: raise HTTPException(500, detail)\<close>.
\<close>

fun reraise_as_500 :: "string \<Rightarrow> exn \<Rightarrow> exn" where
  "reraise_as_500 detail (HTTPException c d) = HTTPException c d"
| "reraise_as_500 detail e = HTTPException 500 detail"

text \<open>
  The status of the response to an exception that leaves a route.  \<open>main.py\<close> installs
  no exception handler of its own, so the framework's defaults apply: an
  \<open>HTTPException\<close> is answered with its code, a body that fails the schema with 422,
  anything else with 500.
\<close>

fun status_code :: "exn \<Rightarrow> nat" where
  "status_code (HTTPException c d) = c"
| "status_code (RequestValidationError errors) = 422"
| "status_code e = 500"

section \<open>The submission schema (schemas/cv\_request.py)\<close>

record CVRequest =
  name :: string
  email :: string
  phone :: string
  company :: "string option"
  role :: "string option"
  purpose :: "string option"
  consent :: bool
  website :: string

record CVResponse =
  success :: bool
  message :: string
  request_id :: string
  timestamp :: int

text \<open>The field validators of the schema; each raises \<open>ValueError\<close> or returns the field.\<close>

definition validate_name :: "string \<Rightarrow> exn + string" where
  "validate_name v =
     (if v = [] \<or> length (strip v) < 2
      then Inl (ValueError ''Name must be at least 2 characters long'')
      else Inr (strip v))"

definition validate_phone :: "string \<Rightarrow> exn + string" where
  "validate_phone v =
     (if v = [] \<or> length (strip v) < 10
      then Inl (ValueError ''Phone number must be at least 10 characters long'')
      else Inr (strip v))"

definition validate_purpose :: "string option \<Rightarrow> exn + string option" where
  "validate_purpose v =
     (case v of
        None \<Rightarrow> Inr None
      | Some p \<Rightarrow> if p \<noteq> [] \<and> length p > 500
                  then Inl (ValueError ''Purpose must be less than 500 characters'')
                  else Inr (Some p))"

definition validate_consent :: "bool \<Rightarrow> exn + bool" where
  "validate_consent v = (if \<not> v then Inl (ValueError ''Consent is required'') else Inr v)"

text \<open>
  The body of a submission: every required field present and of its JSON type,
  \<open>website\<close> with its default \<open>""\<close> when absent.
\<close>

record submission =
  b_name :: string
  b_email :: string
  b_phone :: string
  b_company :: "string option"
  b_role :: "string option"
  b_purpose :: "string option"
  b_consent :: bool
  b_website :: string

text \<open>
  The type \<open>EmailStr\<close> of the field \<open>email\<close> belongs to the schema library, not to the
  repository; it is a parameter: \<open>Inl\<close> the message with which it refuses a string,
  \<open>Inr\<close> the address it yields.
\<close>

type_synonym email_type = "string \<Rightarrow> string + string"

text \<open>
  Parsing a body into a \<open>CVRequest\<close>, as the framework does before it calls the handler:
  the fields are validated in the order of their declaration, a validator's
  \<open>ValueError\<close> is recorded under its field, and the body is refused with all the
  recorded failures when there is one.
\<close>

fun field_error :: "string \<Rightarrow> exn + 'a \<Rightarrow> (string \<times> string) list" where
  "field_error field (Inl (ValueError m)) = [(field, m)]"
| "field_error field r = []"

definition email_error :: "string + string \<Rightarrow> (string \<times> string) list" where
  "email_error r = (case r of Inl m \<Rightarrow> [(''email'', m)] | Inr e \<Rightarrow> [])"

definition schema_errors :: "email_type \<Rightarrow> submission \<Rightarrow> (string \<times> string) list" where
  "schema_errors EmailStr body =
     field_error ''name'' (validate_name (b_name body)) @
     email_error (EmailStr (b_email body)) @
     field_error ''phone'' (validate_phone (b_phone body)) @
     field_error ''purpose'' (validate_purpose (b_purpose body)) @
     field_error ''consent'' (validate_consent (b_consent body))"

definition parse_CVRequest :: "email_type \<Rightarrow> submission \<Rightarrow> exn + CVRequest" where
  "parse_CVRequest EmailStr body =
     (let refused = Inl (RequestValidationError (schema_errors EmailStr body)) in
      case validate_name (b_name body) of Inl x \<Rightarrow> refused | Inr n \<Rightarrow>
      case EmailStr (b_email body) of Inl x \<Rightarrow> refused | Inr e \<Rightarrow>
      case validate_phone (b_phone body) of Inl x \<Rightarrow> refused | Inr p \<Rightarrow>
      case validate_purpose (b_purpose body) of Inl x \<Rightarrow> refused | Inr q \<Rightarrow>
      case validate_consent (b_consent body) of Inl x \<Rightarrow> refused | Inr c \<Rightarrow>
        Inr \<lparr>name = n, email = e, phone = p, company = b_company body,
             role = b_role body, purpose = q, consent = c, website = b_website body\<rparr>)"

section \<open>Request validation (utils/validation.py, continued)\<close>

text \<open>\<open>x or ""\<close> for an optional string.\<close>

definition or_empty :: "string option \<Rightarrow> string" where
  "or_empty v = (case v of None \<Rightarrow> [] | Some s \<Rightarrow> s)"

text \<open>
  The four patterns, searched with \<open>re.IGNORECASE\<close>:
  \<open><script.*?>.*?</script>\<close>, \<open>javascript:\<close>, \<open>data:text/html\<close>,
  \<open><iframe.*?>.*?</iframe>\<close>.  A lazy \<open>*?\<close> and a greedy \<open>*\<close> find a match in the
  same strings.
\<close>

definition suspicious_patterns :: "rexp list" where
  "suspicious_patterns =
     [seq [lit_i ''<script'', Star dot, chr (CHR ''>''), Star dot, lit_i ''</script>''],
      lit_i ''javascript:'',
      lit_i ''data:text/html'',
      seq [lit_i ''<iframe'', Star dot, chr (CHR ''>''), Star dot, lit_i ''</iframe>'']]"

definition all_text :: "CVRequest \<Rightarrow> string" where
  "all_text cv_request =
     name cv_request @ '' '' @ email cv_request @ '' '' @ phone cv_request @ '' '' @
     or_empty (company cv_request) @ '' '' @ or_empty (role cv_request) @ '' '' @
     or_empty (purpose cv_request)"

text \<open>The loop over the patterns: the first one found raises.\<close>

fun scan_patterns :: "rexp list \<Rightarrow> string \<Rightarrow> exn + unit" where
  "scan_patterns [] text = Inr ()"
| "scan_patterns (pattern # patterns) text =
     (if re_search pattern text then Inl (HTTPException 400 ''Invalid characters detected'')
      else scan_patterns patterns text)"

definition validate_request_data :: "CVRequest \<Rightarrow> exn + unit" where
  "validate_request_data cv_request =
     (if name cv_request = [] \<or> length (strip (name cv_request)) < 2
      then Inl (HTTPException 400 ''Name must be at least 2 characters long'')
      else if email cv_request = []
      then Inl (HTTPException 400 ''Email is required'')
      else if \<not> validate_email_format (email cv_request)
      then Inl (HTTPException 400 ''Invalid email format'')
      else if phone cv_request = []
      then Inl (HTTPException 400 ''Phone number is required'')
      else if \<not> validate_phone_format (phone cv_request)
      then Inl (HTTPException 400 ''Invalid phone number format'')
      else if or_empty (purpose cv_request) \<noteq> [] \<and> length (or_empty (purpose cv_request)) > 500
      then Inl (HTTPException 400 ''Purpose must be less than 500 characters'')
      else scan_patterns suspicious_patterns (all_text cv_request))"

section \<open>Leads and their store (models/leads.py, services/lead\_service.py)\<close>

datatype LeadStatus = NEW | CONTACTED | QUALIFIED | PROPOSAL_SENT | CLOSED_WON | CLOSED_LOST

datatype LeadSource = CV_REQUEST | CALENDLY | LINKEDIN | REFERRAL | DIRECT | OTHER

text \<open>
  A row of the \<open>leads\<close> table; timestamps are integers.  The statements the code sends
  to the database are modelled by what their SQL text selects or changes, and by the
  values sent with them.
\<close>

record lead =
  lead_id :: string
  lead_name :: string
  lead_email :: string
  lead_phone :: string
  lead_company :: "string option"
  lead_role :: "string option"
  lead_purpose :: "string option"
  source :: LeadSource
  ip_address :: string
  user_agent :: string
  consent_given :: bool
  consent_timestamp :: "int option"
  status :: LeadStatus
  lead_notes :: "string option"
  created_at :: int
  updated_at :: int

text \<open>A message handed to the SMTP transport (the rendered bodies are left out).\<close>

record mail =
  mail_to :: string
  mail_subject :: string
  mail_attachment :: "string option"

text \<open>
  The state the handlers act on: the rows of the \<open>leads\<close> table in insertion order, and
  the messages passed to \<open>aiosmtplib.send\<close> so far.
\<close>

record world =
  leads :: "lead list"
  smtp_calls :: "mail list"

text \<open>
  What the collaborators do during one request: whether the database answers its calls,
  the database's \<open>CURRENT_TIMESTAMP\<close>, the file at \<open>settings.CV_FILE_PATH\<close> (\<open>None\<close> when
  no file exists there, \<open>Some (Inl e)\<close> when reading it raises), and whether the SMTP
  transport accepts the message.
\<close>

record conditions =
  db_online :: bool
  current_timestamp :: int
  cv_file :: "(exn + string) option"
  smtp_ok :: bool

text \<open>The dictionary \<open>lead_data\<close> that \<open>request_cv\<close> passes to \<open>create_lead\<close>.\<close>

record lead_data =
  d_id :: string
  d_name :: string
  d_email :: string
  d_phone :: string
  d_company :: "string option"
  d_role :: "string option"
  d_purpose :: "string option"
  d_source :: LeadSource
  d_ip_address :: string
  d_user_agent :: string
  d_consent_given :: bool
  d_consent_timestamp :: int

text \<open>
  A statement goes to the database as a text with placeholders \<open>:name\<close> and a
  dictionary of values.  The call raises when the database does not answer, and, in
  the library behind \<open>core/database.py\<close>, when the dictionary holds a key that the
  text does not name.
\<close>

definition bind_values :: "conditions \<Rightarrow> string list \<Rightarrow> string list \<Rightarrow> exn option" where
  "bind_values cond named given =
     (if \<not> db_online cond then Some DatabaseError
      else if list_ex (\<lambda>k. k \<notin> set named) given then Some ArgumentError
      else None)"

text \<open>
  \<open>INSERT INTO leads\<close>: every one of the fifteen values is named in the text.  The call
  raises when the database is down or when the primary key \<open>id\<close> is already present;
  \<open>notes\<close> is not among the inserted columns.
\<close>

definition create_lead :: "conditions \<Rightarrow> int \<Rightarrow> lead_data \<Rightarrow> world \<Rightarrow> exn + (string \<times> world)" where
  "create_lead cond now d w =
     (if \<not> db_online cond then Inl DatabaseError
      else if d_id d \<in> lead_id ` set (leads w) then Inl IntegrityError
      else Inr (d_id d,
        w\<lparr>leads := leads w @
          [\<lparr>lead_id = d_id d, lead_name = d_name d, lead_email = d_email d,
            lead_phone = d_phone d, lead_company = d_company d, lead_role = d_role d,
            lead_purpose = d_purpose d, source = d_source d, ip_address = d_ip_address d,
            user_agent = d_user_agent d, consent_given = d_consent_given d,
            consent_timestamp = Some (d_consent_timestamp d), status = NEW, lead_notes = None,
            created_at = now, updated_at = now\<rparr>]\<rparr>))"

text \<open>\<open>SELECT * FROM leads WHERE id = :lead_id\<close> with the one value \<open>lead_id\<close>, first row.\<close>

definition get_lead_by_id :: "conditions \<Rightarrow> string \<Rightarrow> world \<Rightarrow> exn + lead option" where
  "get_lead_by_id cond i w =
     (if \<not> db_online cond then Inl DatabaseError
      else Inr (find (\<lambda>l. lead_id l = i) (leads w)))"

section \<open>The email service (services/email\_service.py)\<close>

text \<open>
  The body of the \<open>try\<close> block of \<open>_send_email\<close>: build the message, read the attachment
  when the path names an existing file, hand the message to the transport.  The flag
  \<open>with_attachment\<close> stands for the argument \<open>attachment_path\<close> (\<open>send_cv_email\<close> passes
  \<open>settings.CV_FILE_PATH\<close>); the HTML and text bodies are not modelled, their rendering
  is string interpolation and raises nothing.
\<close>

definition send_email_try ::
  "conditions \<Rightarrow> string \<Rightarrow> string \<Rightarrow> bool \<Rightarrow> world \<Rightarrow> (exn + bool) \<times> world" where
  "send_email_try cond to_email subject with_attachment w =
     (case (if with_attachment then cv_file cond else None) of
        Some (Inl e) \<Rightarrow> (Inl e, w)
      | attachment \<Rightarrow>
          (let w' = w\<lparr>smtp_calls := smtp_calls w @
                 [\<lparr>mail_to = to_email, mail_subject = subject,
                   mail_attachment = (case attachment of Some (Inr data) \<Rightarrow> Some data | _ \<Rightarrow> None)\<rparr>]\<rparr>
           in if smtp_ok cond then (Inr True, w') else (Inl SMTPException, w')))"

text \<open>\<open>_send_email\<close>: the body under \<open>except Exception: return False\<close>.\<close>

definition send_email ::
  "conditions \<Rightarrow> string \<Rightarrow> string \<Rightarrow> bool \<Rightarrow> world \<Rightarrow> (exn + bool) \<times> world" where
  "send_email cond to_email subject with_attachment w =
     (case send_email_try cond to_email subject with_attachment w of
        (Inl e, w') \<Rightarrow> (Inr False, w')
      | (Inr b, w') \<Rightarrow> (Inr b, w'))"

definition send_cv_email ::
  "conditions \<Rightarrow> string \<Rightarrow> string \<Rightarrow> string option \<Rightarrow> string option \<Rightarrow> world
     \<Rightarrow> (exn + bool) \<times> world" where
  "send_cv_email cond to_email nm cmpny purp w =
     send_email cond to_email ''Charles Nwankpa - AI Product Engineer CV'' True w"

section \<open>The intake endpoints (api/endpoints/cv\_request.py)\<close>

text \<open>
  What a request brings along: the client address, the \<open>user-agent\<close> header, the
  identifier \<open>uuid.uuid4()\<close> draws and the reading of \<open>datetime.utcnow()\<close>.
\<close>

record request_env =
  client_ip :: string
  user_agent_header :: string
  uuid4 :: string
  utcnow :: int

text \<open>
  The handler of \<open>POST /request-cv\<close>, applied to a parsed \<open>CVRequest\<close>.  It returns the
  response or the exception raised, and the state it leaves.  The rate limiter that
  decorates the handler and the logger are not part of the model.
\<close>

definition request_cv_try ::
  "conditions \<Rightarrow> request_env \<Rightarrow> CVRequest \<Rightarrow> world \<Rightarrow> (exn + CVResponse) \<times> world" where
  "request_cv_try cond env cv_request w =
     (if \<not> validate_honeypot (website cv_request)
      then (Inl (HTTPException 400 ''Invalid request''), w)
      else case validate_request_data cv_request of
        Inl e \<Rightarrow> (Inl e, w)
      | Inr _ \<Rightarrow>
          if \<not> consent cv_request
          then (Inl (HTTPException 400 ''Consent is required''), w)
          else
            (case create_lead cond (utcnow env)
                    \<lparr>d_id = uuid4 env, d_name = name cv_request, d_email = email cv_request,
                     d_phone = phone cv_request, d_company = company cv_request,
                     d_role = role cv_request, d_purpose = purpose cv_request,
                     d_source = CV_REQUEST, d_ip_address = client_ip env,
                     d_user_agent = user_agent_header env, d_consent_given = True,
                     d_consent_timestamp = utcnow env\<rparr> w of
               Inl e \<Rightarrow> (Inl e, w)
             | Inr (_, w1) \<Rightarrow>
                 (case send_cv_email cond (email cv_request) (name cv_request)
                         (company cv_request) (purpose cv_request) w1 of
                    (Inl e, w2) \<Rightarrow> (Inl e, w2)
                  | (Inr _, w2) \<Rightarrow>
                      (Inr \<lparr>success = True,
                            message = ''CV request processed successfully. You should receive the CV via email shortly.'',
                            request_id = uuid4 env, timestamp = utcnow env\<rparr>, w2))))"

definition request_cv ::
  "conditions \<Rightarrow> request_env \<Rightarrow> CVRequest \<Rightarrow> world \<Rightarrow> (exn + CVResponse) \<times> world" where
  "request_cv cond env cv_request w =
     (case request_cv_try cond env cv_request w of
        (Inl e, w') \<Rightarrow> (Inl (reraise_as_500 ''Internal server error. Please try again later.'' e), w')
      | (Inr r, w') \<Rightarrow> (Inr r, w'))"

text \<open>
  The route \<open>POST /request-cv\<close>: the framework parses the body into the handler's
  parameter \<open>cv_request: CVRequest\<close> and answers a body that fails the schema itself,
  without calling the handler.
\<close>

definition post_request_cv ::
  "email_type \<Rightarrow> conditions \<Rightarrow> request_env \<Rightarrow> submission \<Rightarrow> world
     \<Rightarrow> (exn + CVResponse) \<times> world" where
  "post_request_cv EmailStr cond env body w =
     (case parse_CVRequest EmailStr body of
        Inl e \<Rightarrow> (Inl e, w)
      | Inr cv_request \<Rightarrow> request_cv cond env cv_request w)"

record status_response =
  sr_request_id :: string
  sr_status :: LeadStatus
  sr_created_at :: int
  email_sent :: bool

text \<open>The handler of \<open>GET /cv-status/{request_id}\<close>.\<close>

definition get_cv_request_status :: "conditions \<Rightarrow> string \<Rightarrow> world \<Rightarrow> exn + status_response" where
  "get_cv_request_status cond rid w =
     (case get_lead_by_id cond rid w of
        Inl e \<Rightarrow> Inl (reraise_as_500 ''Internal server error'' e)
      | Inr None \<Rightarrow> Inl (HTTPException 404 ''Request not found'')
      | Inr (Some l) \<Rightarrow>
          Inr \<lparr>sr_request_id = rid, sr_status = status l, sr_created_at = created_at l,
               email_sent = True\<rparr>)"

section \<open>Listing leads (services/lead\_service.py, api/endpoints/admin.py)\<close>

text \<open>The \<open>WHERE\<close> clause built from the optional filters, and the placeholders it names.\<close>

definition where_clause :: "LeadStatus option \<Rightarrow> LeadSource option \<Rightarrow> lead \<Rightarrow> bool" where
  "where_clause st src l =
     ((case st of None \<Rightarrow> True | Some s \<Rightarrow> status l = s) \<and>
      (case src of None \<Rightarrow> True | Some s \<Rightarrow> source l = s))"

definition where_names :: "LeadStatus option \<Rightarrow> LeadSource option \<Rightarrow> string list" where
  "where_names st src =
     (case st of None \<Rightarrow> [] | Some s \<Rightarrow> [''status'']) @
     (case src of None \<Rightarrow> [] | Some s \<Rightarrow> [''source''])"

record lead_page =
  p_leads :: "lead list"
  p_total :: int
  p_page :: int
  p_size :: int
  p_pages :: int

text \<open>
  The entries \<open>"page": (skip // limit) + 1\<close> and
  \<open>"pages": (total + limit - 1) // limit\<close> of the returned dictionary, for a total of
  \<open>n\<close>; \<open>//\<close> raises for a divisor of zero.
\<close>

definition page_numbers :: "int \<Rightarrow> int \<Rightarrow> int \<Rightarrow> exn + int \<times> int" where
  "page_numbers skip limit n =
     (if limit = 0 then Inl ZeroDivisionError
      else Inr (skip div limit + 1, (n + limit - 1) div limit))"

text \<open>
  \<open>LeadService.get_leads\<close>.  The dictionary \<open>values\<close> holds \<open>skip\<close> and \<open>limit\<close> from the
  start, and \<open>status\<close> and \<open>source\<close> when given; it goes with both queries.  The count
  query names only the placeholders of the \<open>WHERE\<close> clause; the page query names those
  and \<open>:limit\<close> and \<open>:skip\<close> (PostgreSQL refuses a negative \<open>LIMIT\<close> or \<open>OFFSET\<close>).  The
  order in which the database returns rows of equal \<open>created_at\<close> under
  \<open>ORDER BY created_at DESC\<close> is its own choice at each query: \<open>ordered\<close> is that
  choice.  Then the dictionary is built.
\<close>

definition get_leads ::
  "(lead list \<Rightarrow> lead list) \<Rightarrow> conditions \<Rightarrow> int \<Rightarrow> int \<Rightarrow> LeadStatus option
     \<Rightarrow> LeadSource option \<Rightarrow> world \<Rightarrow> exn + lead_page" where
  "get_leads ordered cond skip limit st src w =
     (let values = [''skip'', ''limit''] @ where_names st src in
      case bind_values cond (where_names st src) values of
        Some e \<Rightarrow> Inl e
      | None \<Rightarrow>
          let n = int (length (filter (where_clause st src) (leads w))) in
          case bind_values cond (where_names st src @ [''limit'', ''skip'']) values of
            Some e \<Rightarrow> Inl e
          | None \<Rightarrow>
              if limit < 0 \<or> skip < 0 then Inl DatabaseError
              else
                let rows = take (nat limit) (drop (nat skip)
                             (ordered (filter (where_clause st src) (leads w))))
                in case page_numbers skip limit n of
                     Inl e \<Rightarrow> Inl e
                   | Inr (page, pages) \<Rightarrow>
                       Inr \<lparr>p_leads = rows, p_total = n, p_page = page,
                            p_size = limit, p_pages = pages\<rparr>)"

text \<open>
  The handler of \<open>GET /admin/leads\<close>, for an authenticated administrator, written over
  the service call it makes.  Its parameter \<open>status\<close> (the filter, \<open>None\<close> or a
  \<open>LeadStatus\<close>) hides the imported module \<open>status\<close> inside the function, so the
  \<open>except\<close> clause, which evaluates \<open>status.HTTP_500_INTERNAL_SERVER_ERROR\<close> to build its
  \<open>HTTPException\<close>, raises \<open>AttributeError\<close> instead.
\<close>

definition admin_get_leads_via ::
  "(int \<Rightarrow> int \<Rightarrow> LeadStatus option \<Rightarrow> LeadSource option \<Rightarrow> exn + lead_page)
     \<Rightarrow> int \<Rightarrow> int \<Rightarrow> LeadStatus option \<Rightarrow> LeadSource option \<Rightarrow> exn + lead_page" where
  "admin_get_leads_via service skip limit st src =
     (case service skip (min limit 100) st src of
        Inl e \<Rightarrow> Inl AttributeError
      | Inr result \<Rightarrow> Inr result)"

definition admin_get_leads ::
  "(lead list \<Rightarrow> lead list) \<Rightarrow> conditions \<Rightarrow> int \<Rightarrow> int \<Rightarrow> LeadStatus option
     \<Rightarrow> LeadSource option \<Rightarrow> world \<Rightarrow> exn + lead_page" where
  "admin_get_leads ordered cond skip limit st src w =
     admin_get_leads_via (\<lambda>s l a b. get_leads ordered cond s l a b w) skip limit st src"

section \<open>Updating a lead (schemas/leads.py, api/endpoints/admin.py)\<close>

record LeadUpdate =
  upd_name :: "string option"
  upd_email :: "string option"
  upd_phone :: "string option"
  upd_company :: "string option"
  upd_role :: "string option"
  upd_purpose :: "string option"
  upd_status :: "LeadStatus option"
  upd_notes :: "string option"

record ResponseMessage =
  rm_success :: bool
  rm_message :: string

text \<open>An entry of \<open>update_fields\<close>, with the value bound to it.\<close>

datatype assignment =
    SetName string
  | SetEmail string
  | SetPhone string
  | SetCompany string
  | SetRole string
  | SetPurpose string
  | SetStatus LeadStatus
  | SetNotes string

definition supplied :: "'a option \<Rightarrow> ('a \<Rightarrow> assignment) \<Rightarrow> assignment list" where
  "supplied v f = (case v of None \<Rightarrow> [] | Some x \<Rightarrow> [f x])"

definition update_fields :: "LeadUpdate \<Rightarrow> assignment list" where
  "update_fields lead_update =
     supplied (upd_name lead_update) SetName @
     supplied (upd_email lead_update) SetEmail @
     supplied (upd_phone lead_update) SetPhone @
     supplied (upd_company lead_update) SetCompany @
     supplied (upd_role lead_update) SetRole @
     supplied (upd_purpose lead_update) SetPurpose @
     supplied (upd_status lead_update) SetStatus @
     supplied (upd_notes lead_update) SetNotes"

fun assign :: "assignment \<Rightarrow> lead \<Rightarrow> lead" where
  "assign (SetName v) l = l\<lparr>lead_name := v\<rparr>"
| "assign (SetEmail v) l = l\<lparr>lead_email := v\<rparr>"
| "assign (SetPhone v) l = l\<lparr>lead_phone := v\<rparr>"
| "assign (SetCompany v) l = l\<lparr>lead_company := Some v\<rparr>"
| "assign (SetRole v) l = l\<lparr>lead_role := Some v\<rparr>"
| "assign (SetPurpose v) l = l\<lparr>lead_purpose := Some v\<rparr>"
| "assign (SetStatus v) l = l\<lparr>status := v\<rparr>"
| "assign (SetNotes v) l = l\<lparr>lead_notes := Some v\<rparr>"

text \<open>The clause \<open>SET ..., updated_at = CURRENT_TIMESTAMP\<close> of the generated statement.\<close>

definition set_clause :: "conditions \<Rightarrow> assignment list \<Rightarrow> lead \<Rightarrow> lead" where
  "set_clause cond assignments l =
     (fold assign assignments l)\<lparr>updated_at := current_timestamp cond\<rparr>"

text \<open>The placeholder of an entry of \<open>update_fields\<close>.\<close>

fun column :: "assignment \<Rightarrow> string" where
  "column (SetName v) = ''name''"
| "column (SetEmail v) = ''email''"
| "column (SetPhone v) = ''phone''"
| "column (SetCompany v) = ''company''"
| "column (SetRole v) = ''role''"
| "column (SetPurpose v) = ''purpose''"
| "column (SetStatus v) = ''status''"
| "column (SetNotes v) = ''notes''"

text \<open>
  \<open>UPDATE leads SET ..., updated_at = CURRENT_TIMESTAMP WHERE id = :lead_id\<close>.  The
  text names the placeholders of the supplied fields and \<open>:lead_id\<close>; the dictionary
  \<open>values\<close> starts as \<open>{"lead_id": lead_id, "updated_at": "CURRENT_TIMESTAMP"}\<close> and gets
  the value of every supplied field.
\<close>

definition execute_update ::
  "conditions \<Rightarrow> assignment list \<Rightarrow> string \<Rightarrow> world \<Rightarrow> exn + world" where
  "execute_update cond assignments i w =
     (case bind_values cond (map column assignments @ [''lead_id''])
             ([''lead_id'', ''updated_at''] @ map column assignments) of
        Some e \<Rightarrow> Inl e
      | None \<Rightarrow>
          Inr (w\<lparr>leads :=
            map (\<lambda>l. if lead_id l = i then set_clause cond assignments l else l) (leads w)\<rparr>))"

text \<open>The handler of \<open>PUT /admin/leads/{lead_id}\<close>, for an authenticated administrator.\<close>

definition update_lead_try ::
  "conditions \<Rightarrow> string \<Rightarrow> LeadUpdate \<Rightarrow> world \<Rightarrow> (exn + ResponseMessage) \<times> world" where
  "update_lead_try cond i lead_update w =
     (case get_lead_by_id cond i w of
        Inl e \<Rightarrow> (Inl e, w)
      | Inr None \<Rightarrow> (Inl (HTTPException 404 ''Lead not found''), w)
      | Inr (Some existing_lead) \<Rightarrow>
          if update_fields lead_update = []
          then (Inr \<lparr>rm_success = True, rm_message = ''No changes to update''\<rparr>, w)
          else case execute_update cond (update_fields lead_update) i w of
                 Inl e \<Rightarrow> (Inl e, w)
               | Inr w' \<Rightarrow>
                   (Inr \<lparr>rm_success = True, rm_message = ''Lead updated successfully''\<rparr>, w'))"

definition update_lead ::
  "conditions \<Rightarrow> string \<Rightarrow> LeadUpdate \<Rightarrow> world \<Rightarrow> (exn + ResponseMessage) \<times> world" where
  "update_lead cond i lead_update w =
     (case update_lead_try cond i lead_update w of
        (Inl e, w') \<Rightarrow> (Inl (reraise_as_500 ''Failed to update lead'' e), w')
      | (Inr r, w') \<Rightarrow> (Inr r, w'))"

section \<open>The rules as the specification words them\<close>

text \<open>
  The seven rules of the validator, what violates each, and the failure each reports.
  The order in which they are tried is a list of rules.
\<close>

datatype rule = Honeypot | Name | Email | Phone | Purpose | Consent | SpamScan

fun violates :: "rule \<Rightarrow> CVRequest \<Rightarrow> bool" where
  "violates Honeypot r = (website r \<noteq> [])"
| "violates Name r = (length (strip (name r)) < 2)"
| "violates Email r = (\<not> validate_email_format (email r))"
| "violates Phone r = (\<not> validate_phone_format (phone r))"
| "violates Purpose r = (length (or_empty (purpose r)) > 500)"
| "violates Consent r = (\<not> consent r)"
| "violates SpamScan r = list_ex (\<lambda>p. re_search p (all_text r)) suspicious_patterns"

fun failure :: "rule \<Rightarrow> CVRequest \<Rightarrow> exn" where
  "failure Honeypot r = HTTPException 400 ''Invalid request''"
| "failure Name r = HTTPException 400 ''Name must be at least 2 characters long''"
| "failure Email r =
     (if email r = [] then HTTPException 400 ''Email is required''
      else HTTPException 400 ''Invalid email format'')"
| "failure Phone r =
     (if phone r = [] then HTTPException 400 ''Phone number is required''
      else HTTPException 400 ''Invalid phone number format'')"
| "failure Purpose r = HTTPException 400 ''Purpose must be less than 500 characters''"
| "failure Consent r = HTTPException 400 ''Consent is required''"
| "failure SpamScan r = HTTPException 400 ''Invalid characters detected''"

text \<open>A submission read as a request with no validation applied.\<close>

definition unparsed :: "submission \<Rightarrow> CVRequest" where
  "unparsed body =
     \<lparr>name = b_name body, email = b_email body, phone = b_phone body,
      company = b_company body, role = b_role body, purpose = b_purpose body,
      consent = b_consent body, website = b_website body\<rparr>"

definition first_violation :: "rule list \<Rightarrow> CVRequest \<Rightarrow> rule option" where
  "first_violation order r = find (\<lambda>k. violates k r) order"

definition specified_order :: "rule list" where
  "specified_order = [Honeypot, Name, Email, Phone, Purpose, Consent, SpamScan]"

definition handler_order :: "rule list" where
  "handler_order = [Honeypot, Name, Email, Phone, Purpose, SpamScan, Consent]"

text \<open>
  The phone rule in the specification's words: strip, then fail when the number of
  digits left is outside 10 to 15 or the stripped string does not match the pattern.
\<close>

definition digit_count :: "string \<Rightarrow> nat" where
  "digit_count s = length (filter is_digit s)"

definition specified_phone_rule :: "string \<Rightarrow> bool" where
  "specified_phone_rule phone_in =
     (let stripped = clean_phone phone_in in
      \<not> (digit_count stripped < 10 \<or> digit_count stripped > 15 \<or>
         \<not> re_match_anchored phone_pattern stripped))"

text \<open>The normalized form of a phone: an optional leading plus sign, then 10 to 15 digits.\<close>

definition normalized_phone :: "string \<Rightarrow> bool" where
  "normalized_phone s =
     (let ds = (case s of [] \<Rightarrow> [] | c # cs \<Rightarrow> if c = CHR ''+'' then cs else s)
      in list_all is_digit ds \<and> 10 \<le> length ds \<and> length ds \<le> 15)"

section \<open>The words of a pattern\<close>

text \<open>The language of a pattern, against which the derivative matcher is proved.\<close>

inductive_set star :: "string set \<Rightarrow> string set" for A :: "string set" where
  star_nil: "[] \<in> star A"
| star_step: "u \<in> A \<Longrightarrow> v \<in> star A \<Longrightarrow> u @ v \<in> star A"

definition conc :: "string set \<Rightarrow> string set \<Rightarrow> string set" where
  "conc A B = {u @ v | u v. u \<in> A \<and> v \<in> B}"

fun lang :: "rexp \<Rightarrow> string set" where
  "lang Zero = {}"
| "lang One = {[]}"
| "lang (Atom p) = {[c] | c. p c}"
| "lang (Plus r s) = lang r \<union> lang s"
| "lang (Times r s) = conc (lang r) (lang s)"
| "lang (Star r) = star (lang r)"

section \<open>Sample inputs\<close>

text \<open>The submission of the specification's scenario, and variations of it.\<close>

definition john :: CVRequest where
  "john = \<lparr>name = ''John Smith'', email = ''john@x.com'', phone = ''+15550123456'',
            company = None, role = None, purpose = None, consent = True, website = []\<rparr>"

text \<open>With the phone number written with dashes.\<close>

definition dashed :: CVRequest where
  "dashed = john\<lparr>phone := ''+1-555-0123-4567''\<rparr>"

definition all_well :: conditions where
  "all_well = \<lparr>db_online = True, current_timestamp = 200, cv_file = Some (Inr ''%PDF''),
                smtp_ok = True\<rparr>"

definition smtp_down :: conditions where
  "smtp_down = all_well\<lparr>smtp_ok := False\<rparr>"

definition env1 :: request_env where
  "env1 = \<lparr>client_ip = ''203.0.113.7'', user_agent_header = ''curl/8.0'',
            uuid4 = ''id-1'', utcnow = 100\<rparr>"

definition empty_world :: world where
  "empty_world = \<lparr>leads = [], smtp_calls = []\<rparr>"

definition lead1 :: lead where
  "lead1 = \<lparr>lead_id = ''id-1'', lead_name = ''John Smith'', lead_email = ''john@x.com'',
             lead_phone = ''+15550123456'', lead_company = None, lead_role = None,
             lead_purpose = None, source = CV_REQUEST, ip_address = ''203.0.113.7'',
             user_agent = ''curl/8.0'', consent_given = True, consent_timestamp = Some 100,
             status = NEW, lead_notes = None, created_at = 100, updated_at = 100\<rparr>"

definition three_leads :: world where
  "three_leads =
     \<lparr>leads = [lead1, lead1\<lparr>lead_id := ''id-2'', created_at := 300\<rparr>,
               lead1\<lparr>lead_id := ''id-3'', created_at := 50\<rparr>],
      smtp_calls = []\<rparr>"

definition no_changes :: LeadUpdate where
  "no_changes = \<lparr>upd_name = None, upd_email = None, upd_phone = None, upd_company = None,
                  upd_role = None, upd_purpose = None, upd_status = None, upd_notes = None\<rparr>"

text \<open>
  The same submission as a body, and variations of it: without consent; with a
  \<open>javascript:\<close> URL in the purpose, with and without consent; with the honeypot
  filled in and a field that the schema refuses.
\<close>

definition john_body :: submission where
  "john_body = \<lparr>b_name = ''John Smith'', b_email = ''john@x.com'',
                 b_phone = ''+15550123456'', b_company = None, b_role = None,
                 b_purpose = None, b_consent = True, b_website = []\<rparr>"

definition no_consent_body :: submission where
  "no_consent_body = john_body\<lparr>b_consent := False\<rparr>"

definition script_body :: submission where
  "script_body = john_body\<lparr>b_purpose := Some ''javascript:alert(1)''\<rparr>"

definition script_no_consent_body :: submission where
  "script_no_consent_body = script_body\<lparr>b_consent := False\<rparr>"

definition dashed_body :: submission where
  "dashed_body = john_body\<lparr>b_phone := ''+1-555-0123-4567''\<rparr>"

definition honeypot_body :: submission where
  "honeypot_body = john_body\<lparr>b_website := ''http://spam.example''\<rparr>"

definition honeypot_short_name_body :: submission where
  "honeypot_short_name_body = honeypot_body\<lparr>b_name := ''J''\<rparr>"

definition honeypot_short_phone_body :: submission where
  "honeypot_short_phone_body = honeypot_body\<lparr>b_phone := ''123''\<rparr>"

text \<open>
  A stand-in for \<open>EmailStr\<close> in the sample evaluations: it yields a string that holds
  an \<open>@\<close> as it is and refuses any other.
\<close>

definition with_at :: email_type where
  "with_at v = (if CHR ''@'' \<in> set v then Inr v
                else Inl ''value is not a valid email address'')"

text \<open>A row order for the sample evaluations: newest first, ties in table order.\<close>

definition newest_first :: "lead list \<Rightarrow> lead list" where
  "newest_first rows = sort_key (\<lambda>l. - created_at l) rows"


section \<open>The derivative matcher decides the language\<close>

lemma concI: "u \<in> A \<Longrightarrow> v \<in> B \<Longrightarrow> u @ v \<in> conc A B"
  unfolding conc_def by blast

lemma concE: "w \<in> conc A B \<Longrightarrow> (\<And>u v. w = u @ v \<Longrightarrow> u \<in> A \<Longrightarrow> v \<in> B \<Longrightarrow> P) \<Longrightarrow> P"
  unfolding conc_def by blast

lemma conc_empty: "conc {} B = {}" "conc A {} = {}"
  by (auto simp: conc_def)

lemma conc_unit: "conc {[]} B = B" "conc A {[]} = A"
  by (auto simp: conc_def)

lemma lang_plus: "lang (plus r s) = lang r \<union> lang s"
  by (induction r s rule: plus.induct) auto

lemma lang_times: "lang (times r s) = conc (lang r) (lang s)"
  by (induction r s rule: times.induct) (simp_all add: conc_empty conc_unit)

lemma nullable_lang: "nullable r \<longleftrightarrow> [] \<in> lang r"
  by (induction r) (auto simp: conc_def intro: star.intros)

lemma star_cons:
  "c # w \<in> star A \<longleftrightarrow> (\<exists>u v. w = u @ v \<and> c # u \<in> A \<and> v \<in> star A)"
proof
  assume "c # w \<in> star A"
  then show "\<exists>u v. w = u @ v \<and> c # u \<in> A \<and> v \<in> star A"
  proof (induction "c # w" rule: star.induct)
    case (star_step u v)
    then show ?case by (cases u) auto
  qed
next
  assume "\<exists>u v. w = u @ v \<and> c # u \<in> A \<and> v \<in> star A"
  then obtain u v where "w = u @ v" "c # u \<in> A" "v \<in> star A" by blast
  then show "c # w \<in> star A" using star_step [of "c # u" A v] by simp
qed

lemma conc_cons:
  "c # w \<in> conc A B \<longleftrightarrow>
     ([] \<in> A \<and> c # w \<in> B) \<or> (\<exists>u v. w = u @ v \<and> c # u \<in> A \<and> v \<in> B)"
proof
  assume "c # w \<in> conc A B"
  then obtain u v where uv: "c # w = u @ v" "u \<in> A" "v \<in> B" by (rule concE)
  show "([] \<in> A \<and> c # w \<in> B) \<or> (\<exists>u v. w = u @ v \<and> c # u \<in> A \<and> v \<in> B)"
  proof (cases u)
    case Nil
    with uv show ?thesis by simp
  next
    case (Cons a u')
    with uv have "w = u' @ v" "c # u' \<in> A" by auto
    with uv show ?thesis by blast
  qed
next
  assume "([] \<in> A \<and> c # w \<in> B) \<or> (\<exists>u v. w = u @ v \<and> c # u \<in> A \<and> v \<in> B)"
  then show "c # w \<in> conc A B"
  proof
    assume "[] \<in> A \<and> c # w \<in> B"
    then show ?thesis using concI [of "[]" A "c # w" B] by simp
  next
    assume "\<exists>u v. w = u @ v \<and> c # u \<in> A \<and> v \<in> B"
    then obtain u v where "w = u @ v" "c # u \<in> A" "v \<in> B" by blast
    then show ?thesis using concI [of "c # u" A v B] by simp
  qed
qed

lemma conc_iff: "w \<in> conc A B \<longleftrightarrow> (\<exists>u v. w = u @ v \<and> u \<in> A \<and> v \<in> B)"
  unfolding conc_def by blast

lemma lang_deriv: "w \<in> lang (deriv c r) \<longleftrightarrow> c # w \<in> lang r"
proof (induction r arbitrary: w)
  case (Times r s)
  have a: "w \<in> conc (lang (deriv c r)) (lang s) \<longleftrightarrow>
             (\<exists>u v. w = u @ v \<and> c # u \<in> lang r \<and> v \<in> lang s)"
    by (simp add: conc_iff Times)
  show ?case
    by (auto simp add: lang_plus lang_times a conc_cons [of c w] nullable_lang Times)
next
  case (Star r)
  have a: "w \<in> conc (lang (deriv c r)) (star (lang r)) \<longleftrightarrow>
             (\<exists>u v. w = u @ v \<and> c # u \<in> lang r \<and> v \<in> star (lang r))"
    by (simp add: conc_iff Star)
  show ?case by (simp add: lang_times star_cons a)
next
  case (Plus r s)
  then show ?case by (simp add: lang_plus)
qed auto

lemma matches_lang: "matches r w \<longleftrightarrow> w \<in> lang r"
  by (induction w arbitrary: r) (simp_all add: nullable_lang lang_deriv)

lemma conc_atom:
  "s \<in> conc (lang (Atom p)) B \<longleftrightarrow> (\<exists>c t. s = c # t \<and> p c \<and> t \<in> B)"
proof (cases s)
  case Nil
  then show ?thesis by (auto simp: conc_iff)
next
  case (Cons a t)
  then show ?thesis by (auto simp: conc_cons)
qed

lemma conc_Un: "conc (A \<union> A') B = conc A B \<union> conc A' B"
  by (auto simp: conc_def)

lemma lang_exactly_atom:
  "s \<in> lang (exactly n (Atom p)) \<longleftrightarrow> length s = n \<and> list_all p s"
proof (induction n arbitrary: s)
  case 0 show ?case by auto
next
  case (Suc n)
  show ?case unfolding exactly.simps lang.simps(5) conc_atom Suc by (cases s) auto
qed

lemma lang_upto_atom:
  "s \<in> lang (upto n (Atom p)) \<longleftrightarrow> length s \<le> n \<and> list_all p s"
proof (induction n arbitrary: s)
  case 0 show ?case by auto
next
  case (Suc n)
  show ?case unfolding upto.simps lang.simps(4,5) Un_iff conc_atom Suc by (cases s) auto
qed

lemma lang_between_atom:
  assumes nm: "n \<le> m"
  shows "s \<in> lang (between n m (Atom p)) \<longleftrightarrow> n \<le> length s \<and> length s \<le> m \<and> list_all p s"
proof
  assume "s \<in> lang (between n m (Atom p))"
  then obtain u v where "s = u @ v" "u \<in> lang (exactly n (Atom p))" "v \<in> lang (upto (m - n) (Atom p))"
    unfolding between_def lang.simps(5) by (rule concE)
  then have "s = u @ v" "length u = n" "list_all p u" "length v \<le> m - n" "list_all p v"
    by (simp_all add: lang_exactly_atom lang_upto_atom)
  with nm show "n \<le> length s \<and> length s \<le> m \<and> list_all p s" by auto
next
  assume a: "n \<le> length s \<and> length s \<le> m \<and> list_all p s"
  have "take n s \<in> lang (exactly n (Atom p))"
    using a by (auto simp: lang_exactly_atom list_all_iff dest: in_set_takeD)
  moreover have "drop n s \<in> lang (upto (m - n) (Atom p))"
    using a by (auto simp: lang_upto_atom list_all_iff dest: in_set_dropD)
  ultimately have "take n s @ drop n s \<in> conc (lang (exactly n (Atom p))) (lang (upto (m - n) (Atom p)))"
    by (rule concI)
  then show "s \<in> lang (between n m (Atom p))"
    by (simp add: between_def)
qed

lemma is_digit_plus: "is_digit c \<Longrightarrow> c \<noteq> CHR ''+''"
  by (auto simp: is_digit_def code_def)

lemma lang_phone_pattern:
  "s \<in> lang phone_pattern \<longleftrightarrow>
     (\<exists>ds. (s = ds \<or> s = CHR ''+'' # ds) \<and> 10 \<le> length ds \<and> length ds \<le> 15 \<and> list_all is_digit ds)"
proof -
  have "s \<in> lang phone_pattern \<longleftrightarrow>
     s \<in> lang (between 10 15 (Atom is_digit)) \<or>
     (\<exists>c t. s = c # t \<and> c = CHR ''+'' \<and> t \<in> lang (between 10 15 (Atom is_digit)))"
    unfolding phone_pattern_def opt_def chr_def lang.simps(4,5) lang.simps(2) conc_Un Un_iff
      conc_unit conc_atom ..
  then show ?thesis
    by (auto simp: lang_between_atom)
qed

lemma matches_phone_pattern: "matches phone_pattern s \<longleftrightarrow> normalized_phone s"
proof (cases s)
  case Nil
  then show ?thesis
    by (auto simp: matches_lang lang_phone_pattern normalized_phone_def)
next
  case (Cons c cs)
  show ?thesis
  proof (cases "c = CHR ''+''")
    case True
    have "\<not> list_all is_digit (c # cs)" using True is_digit_plus by auto
    then show ?thesis using Cons True
      by (auto simp: matches_lang lang_phone_pattern normalized_phone_def)
  next
    case False
    then show ?thesis using Cons
      by (auto simp: matches_lang lang_phone_pattern normalized_phone_def)
  qed
qed

lemma clean_phone_no_newline: "clean_phone p \<noteq> [] \<Longrightarrow> last (clean_phone p) \<noteq> CHR 0x0A"
proof -
  assume a: "clean_phone p \<noteq> []"
  then have "last (clean_phone p) \<in> set (clean_phone p)" by simp
  then have "is_digit (last (clean_phone p)) \<or> last (clean_phone p) = CHR ''+''"
    by (simp add: clean_phone_def)
  then show ?thesis by (auto simp: is_digit_def code_def)
qed

lemma validate_phone_format_iff:
  "validate_phone_format p \<longleftrightarrow>
     10 \<le> length (clean_phone p) \<and> length (clean_phone p) \<le> 15 \<and> normalized_phone (clean_phone p)"
  using clean_phone_no_newline [of p]
  by (auto simp: validate_phone_format_def Let_def re_match_anchored_def matches_phone_pattern)

section \<open>Facts about the sample inputs\<close>

lemma john_valid: "validate_honeypot (website john)" "validate_request_data john = Inr ()"
  by code_simp+

lemma john_accepted:
  "request_cv all_well env1 john empty_world =
     (Inr \<lparr>success = True,
           message = ''CV request processed successfully. You should receive the CV via email shortly.'',
           request_id = ''id-1'', timestamp = 100\<rparr>,
      \<lparr>leads = [lead1],
       smtp_calls = [\<lparr>mail_to = ''john@x.com'',
                      mail_subject = ''Charles Nwankpa - AI Product Engineer CV'',
                      mail_attachment = Some ''%PDF''\<rparr>]\<rparr>)"
  by code_simp

section \<open>Parsing a body\<close>

lemma field_error_Inr: "field_error f (Inr v) = []"
  by simp

lemma parse_CVRequest_cases:
  "parse_CVRequest E body =
     (if schema_errors E body = []
      then Inr \<lparr>name = strip (b_name body),
                email = (case E (b_email body) of Inr e \<Rightarrow> e | Inl m \<Rightarrow> m),
                phone = strip (b_phone body), company = b_company body,
                role = b_role body, purpose = b_purpose body, consent = True,
                website = b_website body\<rparr>
      else Inl (RequestValidationError (schema_errors E body)))"
  by (auto simp: parse_CVRequest_def schema_errors_def email_error_def Let_def validate_name_def
        validate_phone_def validate_purpose_def validate_consent_def
      split: sum.splits option.splits)

lemma parse_CVRequest_Inr:
  assumes "parse_CVRequest E body = Inr r"
  shows "schema_errors E body = []" "name r = strip (b_name body)"
    "phone r = strip (b_phone body)" "consent r" "website r = b_website body"
    "purpose r = b_purpose body" "b_consent body"
  using assms
  by (auto simp: parse_CVRequest_cases schema_errors_def validate_consent_def split: if_splits)

lemma parse_CVRequest_Inl:
  assumes "parse_CVRequest E body = Inl e"
  shows "e = RequestValidationError (schema_errors E body)" "schema_errors E body \<noteq> []"
    "status_code e = 422"
  using assms by (auto simp: parse_CVRequest_cases split: if_splits)

lemma no_consent_errors:
  "\<not> b_consent body \<Longrightarrow> (''consent'', ''Consent is required'') \<in> set (schema_errors E body)"
  by (simp add: schema_errors_def validate_consent_def)


section \<open>What the route answers to a refused submission\<close>

lemma post_request_cv_refused:
  "parse_CVRequest E body = Inl e \<Longrightarrow> post_request_cv E cond env body w = (Inl e, w)"
  by (simp add: post_request_cv_def)

lemma post_request_cv_parsed:
  "parse_CVRequest E body = Inr r \<Longrightarrow> post_request_cv E cond env body w = request_cv cond env r w"
  by (simp add: post_request_cv_def)


lemma body_facts:
  "parse_CVRequest with_at john_body = Inr john"
  "post_request_cv with_at all_well env1 john_body empty_world =
     (Inr \<lparr>success = True,
           message = ''CV request processed successfully. You should receive the CV via email shortly.'',
           request_id = ''id-1'', timestamp = 100\<rparr>,
      \<lparr>leads = [lead1],
       smtp_calls = [\<lparr>mail_to = ''john@x.com'',
                      mail_subject = ''Charles Nwankpa - AI Product Engineer CV'',
                      mail_attachment = Some ''%PDF''\<rparr>]\<rparr>)"
  "john_body\<lparr>b_consent := False\<rparr> = no_consent_body"
  "post_request_cv with_at all_well env1 no_consent_body empty_world =
     (Inl (RequestValidationError [(''consent'', ''Consent is required'')]), empty_world)"
  "b_website honeypot_body \<noteq> []"
  "parse_CVRequest with_at honeypot_body = Inr (john\<lparr>website := ''http://spam.example''\<rparr>)"
  "post_request_cv with_at all_well env1 honeypot_body empty_world =
     (Inl (HTTPException 400 ''Invalid request''), empty_world)"
  "b_website honeypot_short_name_body \<noteq> []"
  "parse_CVRequest with_at honeypot_short_name_body =
     Inl (RequestValidationError [(''name'', ''Name must be at least 2 characters long'')])"
  "post_request_cv with_at all_well env1 honeypot_short_name_body empty_world =
     (Inl (RequestValidationError [(''name'', ''Name must be at least 2 characters long'')]),
      empty_world)"
  by code_simp+




text \<open>
  The handler's own consent check: it would answer 400 with the same message, but no
  parsed request reaches it with \<open>consent\<close> false.
\<close>

lemma validate_request_data_consent:
  "validate_request_data (r\<lparr>consent := b\<rparr>) = validate_request_data r"
  by (simp add: validate_request_data_def all_text_def)

lemma handler_consent_check:
  "validate_honeypot (website p) \<Longrightarrow> validate_request_data p = Inr () \<Longrightarrow>
     request_cv cond env (p\<lparr>consent := False\<rparr>) w
       = (Inl (HTTPException 400 ''Consent is required''), w)"
  by (simp add: request_cv_def request_cv_try_def validate_request_data_consent)




section \<open>The email service and the intake handler\<close>

lemma send_email_cases:
  "send_email cond t s a w =
     (if a \<and> (\<exists>e. cv_file cond = Some (Inl e)) then (Inr False, w)
      else (Inr (smtp_ok cond),
            w\<lparr>smtp_calls := smtp_calls w @
                 [\<lparr>mail_to = t, mail_subject = s,
                   mail_attachment = (case (if a then cv_file cond else None) of
                                        Some (Inr data) \<Rightarrow> Some data | _ \<Rightarrow> None)\<rparr>]\<rparr>))"
  by (auto simp: send_email_def send_email_try_def Let_def split: option.splits sum.splits)

lemma send_email_try_raises:
  "(\<exists>e. fst (send_email_try cond t s a w) = Inl e) \<longleftrightarrow>
     (a \<and> (\<exists>e. cv_file cond = Some (Inl e))) \<or> \<not> smtp_ok cond"
  by (auto simp: send_email_try_def Let_def split: option.splits sum.splits)

lemma find_append_fresh:
  "i \<notin> lead_id ` set xs \<Longrightarrow> lead_id l = i \<Longrightarrow> find (\<lambda>x. lead_id x = i) (xs @ [l]) = Some l"
  by (induction xs) auto

lemma john_smtp_down:
  "request_cv smtp_down env1 john empty_world =
     (Inr \<lparr>success = True,
           message = ''CV request processed successfully. You should receive the CV via email shortly.'',
           request_id = ''id-1'', timestamp = 100\<rparr>,
      \<lparr>leads = [lead1],
       smtp_calls = [\<lparr>mail_to = ''john@x.com'',
                      mail_subject = ''Charles Nwankpa - AI Product Engineer CV'',
                      mail_attachment = Some ''%PDF''\<rparr>]\<rparr>)"
  by code_simp

lemma john_smtp_down_send:
  "fst (send_cv_email smtp_down (email john) (name john) (company john) (purpose john)
          empty_world) = Inr False"
  by code_simp

lemma john_conditions:
  "consent john" "db_online smtp_down" "\<not> smtp_ok smtp_down"
  "uuid4 env1 \<notin> lead_id ` set (leads empty_world)"
  by (simp_all add: john_def smtp_down_def all_well_def empty_world_def)

text \<open>
  Claim C8.  \<open>_send_email\<close> never raises: whatever the attachment file and the transport
  do, it returns a boolean, and it returns \<open>False\<close> exactly when the body of its \<open>try\<close>
  block raised.  In \<open>request_cv\<close>, for a submission that passes validation and whose lead
  is inserted, a failing send leaves the inserted lead in the table and the handler
  still returns the success response carrying the generated identifier.
\<close>

theorem email_failure_is_contained:
  "(\<exists>b w'. send_email cond to_email subject att w = (Inr b, w')) \<and>
   ((\<exists>e. fst (send_email_try cond to_email subject att w) = Inl e)
      \<longleftrightarrow> fst (send_email cond to_email subject att w) = Inr False) \<and>
   (validate_honeypot (website r) \<and> validate_request_data r = Inr () \<and> consent r \<and>
    db_online c \<and> uuid4 env \<notin> lead_id ` set (leads v) \<and>
    (\<not> smtp_ok c \<or> (\<exists>e. cv_file c = Some (Inl e)))
    \<longrightarrow> fst (send_cv_email c (email r) (name r) (company r) (purpose r) v) = Inr False \<and>
        (\<exists>l v'. request_cv c env r v =
                   (Inr \<lparr>success = True,
                         message = ''CV request processed successfully. You should receive the CV via email shortly.'',
                         request_id = uuid4 env, timestamp = utcnow env\<rparr>, v') \<and>
                 leads v' = leads v @ [l] \<and> lead_id l = uuid4 env \<and>
                 lead_email l = email r \<and>
                 get_lead_by_id c (uuid4 env) v' = Inr (Some l)))"
proof (intro conjI impI)
  show "\<exists>b w'. send_email cond to_email subject att w = (Inr b, w')"
    by (auto simp add: send_email_cases)
  show "(\<exists>e. fst (send_email_try cond to_email subject att w) = Inl e)
      \<longleftrightarrow> fst (send_email cond to_email subject att w) = Inr False"
    unfolding send_email_try_raises by (auto simp: send_email_cases)
next
  assume a: "validate_honeypot (website r) \<and> validate_request_data r = Inr () \<and> consent r \<and>
    db_online c \<and> uuid4 env \<notin> lead_id ` set (leads v) \<and>
    (\<not> smtp_ok c \<or> (\<exists>e. cv_file c = Some (Inl e)))"
  then show "fst (send_cv_email c (email r) (name r) (company r) (purpose r) v) = Inr False"
    by (auto simp: send_cv_email_def send_email_cases)
  from a show "\<exists>l v'. request_cv c env r v =
                   (Inr \<lparr>success = True,
                         message = ''CV request processed successfully. You should receive the CV via email shortly.'',
                         request_id = uuid4 env, timestamp = utcnow env\<rparr>, v') \<and>
                 leads v' = leads v @ [l] \<and> lead_id l = uuid4 env \<and>
                 lead_email l = email r \<and>
                 get_lead_by_id c (uuid4 env) v' = Inr (Some l)"
    by (auto simp: request_cv_def request_cv_try_def create_lead_def send_cv_email_def
        send_email_cases get_lead_by_id_def find_append_fresh)
qed

theorem email_failure_is_contained_witness:
  "validate_honeypot (website john) \<and> validate_request_data john = Inr () \<and> consent john \<and>
   db_online smtp_down \<and> uuid4 env1 \<notin> lead_id ` set (leads empty_world) \<and>
   \<not> smtp_ok smtp_down \<and>
   fst (send_cv_email smtp_down (email john) (name john) (company john) (purpose john)
          empty_world) = Inr False \<and>
   request_cv smtp_down env1 john empty_world =
     (Inr \<lparr>success = True,
           message = ''CV request processed successfully. You should receive the CV via email shortly.'',
           request_id = ''id-1'', timestamp = 100\<rparr>,
      \<lparr>leads = [lead1],
       smtp_calls = [\<lparr>mail_to = ''john@x.com'',
                      mail_subject = ''Charles Nwankpa - AI Product Engineer CV'',
                      mail_attachment = Some ''%PDF''\<rparr>]\<rparr>)"
  using email_failure_is_contained
    [of smtp_down "''john@x.com''" "''subject''" True empty_world john smtp_down env1 empty_world]
    john_valid john_conditions john_smtp_down john_smtp_down_send
  by simp

section \<open>The status endpoint\<close>

lemma status_of_id_2:
  "find (\<lambda>x. lead_id x = ''id-2'') (leads three_leads)
     = Some (lead1\<lparr>lead_id := ''id-2'', created_at := 300\<rparr>)"
  "get_cv_request_status all_well ''id-2'' three_leads =
     Inr \<lparr>sr_request_id = ''id-2'', sr_status = NEW, sr_created_at = 300, email_sent = True\<rparr>"
  by code_simp+

lemma status_after_smtp_down:
  "get_cv_request_status smtp_down ''id-1''
      (snd (request_cv smtp_down env1 john empty_world)) =
     Inr \<lparr>sr_request_id = ''id-1'', sr_status = NEW, sr_created_at = 100, email_sent = True\<rparr>"
  by code_simp

text \<open>
  Claim C9.  When the database answers and a lead with the requested identifier exists,
  \<open>get_cv_request_status\<close> returns \<open>email_sent = True\<close>, with the lead's status and
  creation time.  This holds in particular for the lead of a submission whose CV email
  was not delivered (\<open>send_cv_email\<close> returned \<open>False\<close>).
\<close>

theorem email_sent_is_constant:
  "(db_online cond \<and> find (\<lambda>x. lead_id x = rid) (leads w) = Some l
      \<longrightarrow> get_cv_request_status cond rid w =
            Inr \<lparr>sr_request_id = rid, sr_status = status l, sr_created_at = created_at l,
                 email_sent = True\<rparr>) \<and>
   (validate_honeypot (website r) \<and> validate_request_data r = Inr () \<and> consent r \<and>
    db_online c \<and> uuid4 env \<notin> lead_id ` set (leads v) \<and>
    (\<not> smtp_ok c \<or> (\<exists>e. cv_file c = Some (Inl e)))
      \<longrightarrow> (\<exists>resp v'. request_cv c env r v = (Inr resp, v') \<and>
             fst (send_cv_email c (email r) (name r) (company r) (purpose r) v) = Inr False \<and>
             get_cv_request_status c (request_id resp) v' =
               Inr \<lparr>sr_request_id = request_id resp, sr_status = NEW,
                    sr_created_at = utcnow env, email_sent = True\<rparr>))"
  by (auto simp: get_cv_request_status_def get_lead_by_id_def request_cv_def request_cv_try_def
        create_lead_def send_cv_email_def send_email_cases find_append_fresh)

theorem email_sent_is_constant_witness:
  "db_online all_well \<and>
   find (\<lambda>x. lead_id x = ''id-2'') (leads three_leads)
     = Some (lead1\<lparr>lead_id := ''id-2'', created_at := 300\<rparr>) \<and>
   get_cv_request_status all_well ''id-2'' three_leads =
     Inr \<lparr>sr_request_id = ''id-2'', sr_status = NEW, sr_created_at = 300, email_sent = True\<rparr> \<and>
   validate_honeypot (website john) \<and> validate_request_data john = Inr () \<and> consent john \<and>
   db_online smtp_down \<and> uuid4 env1 \<notin> lead_id ` set (leads empty_world) \<and>
   \<not> smtp_ok smtp_down \<and>
   fst (send_cv_email smtp_down (email john) (name john) (company john) (purpose john)
          empty_world) = Inr False \<and>
   get_cv_request_status smtp_down ''id-1''
      (snd (request_cv smtp_down env1 john empty_world)) =
     Inr \<lparr>sr_request_id = ''id-1'', sr_status = NEW, sr_created_at = 100, email_sent = True\<rparr>"
  using email_sent_is_constant
    [of all_well "''id-2''" three_leads "lead1\<lparr>lead_id := ''id-2'', created_at := 300\<rparr>"
        john smtp_down env1 empty_world]
    john_valid john_conditions john_smtp_down_send status_of_id_2 status_after_smtp_down
  by (simp add: all_well_def)

section \<open>Statements sent with a value their text does not name\<close>

lemma column_not_updated_at: "column a \<noteq> ''updated_at''"
  by (cases a) simp_all

lemma updated_at_not_named: "''updated_at'' \<notin> set (map column as @ [''lead_id''])"
  by (induction as) (simp_all add: column_not_updated_at [THEN not_sym])

lemma execute_update_raises:
  "execute_update cond as i w = Inl (if db_online cond then ArgumentError else DatabaseError)"
  using updated_at_not_named [of as]
  by (simp add: execute_update_def bind_values_def del: set_append set_map)

lemma skip_not_named: "''skip'' \<notin> set (where_names st src)"
  by (cases st; cases src) (simp_all add: where_names_def)

text \<open>The count query raises for every call, so the service never returns.\<close>

lemma get_leads_raises:
  "get_leads ordered cond skip limit st src w =
     Inl (if db_online cond then ArgumentError else DatabaseError)"
  using skip_not_named [of st src]
  by (simp add: get_leads_def bind_values_def Let_def)

lemma admin_get_leads_raises:
  "admin_get_leads ordered cond skip limit st src w = Inl AttributeError"
  by (simp add: admin_get_leads_def admin_get_leads_via_def get_leads_raises)

section \<open>Updating a lead\<close>

lemma supplied_empty: "supplied v f = [] \<longleftrightarrow> v = None"
  by (cases v) (simp_all add: supplied_def)

lemma update_fields_empty: "update_fields u = [] \<longleftrightarrow> u = no_changes"
  by (cases u) (simp add: update_fields_def supplied_empty no_changes_def)

lemma update_lead_empty:
  "db_online cond \<Longrightarrow> find (\<lambda>x. lead_id x = i) (leads w) = Some l \<Longrightarrow>
   update_lead cond i no_changes w =
       (Inr \<lparr>rm_success = True, rm_message = ''No changes to update''\<rparr>, w)"
  using update_fields_empty [of no_changes]
  by (simp add: update_lead_def update_lead_try_def get_lead_by_id_def)

lemma update_lead_fields:
  "db_online cond \<Longrightarrow> find (\<lambda>x. lead_id x = i) (leads w) = Some l \<Longrightarrow> u \<noteq> no_changes \<Longrightarrow>
   update_lead cond i u w = (Inl (HTTPException 500 ''Failed to update lead''), w)"
  using update_fields_empty [of u]
  by (simp add: update_lead_def update_lead_try_def get_lead_by_id_def execute_update_raises)

lemma qualify_id_2:
  "no_changes\<lparr>upd_status := Some QUALIFIED\<rparr> \<noteq> no_changes"
  "update_lead all_well ''id-2'' no_changes three_leads =
     (Inr \<lparr>rm_success = True, rm_message = ''No changes to update''\<rparr>, three_leads)"
  "update_lead all_well ''id-2'' (no_changes\<lparr>upd_status := Some QUALIFIED\<rparr>) three_leads =
     (Inl (HTTPException 500 ''Failed to update lead''), three_leads)"
  "map updated_at (leads three_leads) = [100, 100, 100]"
  by code_simp+

text \<open>
  Claim C6.  For a lead that exists (and a database that answers), \<open>update_lead\<close> with
  the payload whose fields are all absent returns the success message
  ``No changes to update'' and the state it was given, so the row keeps every column,
  \<open>updated_at\<close> included.  With any other payload the \<open>UPDATE\<close> statement is sent with the
  value \<open>updated_at\<close>, which its text does not name: the call raises, the handler
  answers 500 ``Failed to update lead'' and the row is left as it was, \<open>updated_at\<close> not
  refreshed.
\<close>

theorem nonempty_update_fails:
  "db_online cond \<and> find (\<lambda>x. lead_id x = i) (leads w) = Some l \<longrightarrow>
     update_lead cond i no_changes w =
       (Inr \<lparr>rm_success = True, rm_message = ''No changes to update''\<rparr>, w) \<and>
     (u \<noteq> no_changes \<longrightarrow>
        update_lead cond i u w = (Inl (HTTPException 500 ''Failed to update lead''), w))"
  using update_lead_empty [of cond i w l] update_lead_fields [of cond i w l u] by blast

theorem nonempty_update_fails_witness:
  "db_online all_well \<and>
   find (\<lambda>x. lead_id x = ''id-2'') (leads three_leads)
     = Some (lead1\<lparr>lead_id := ''id-2'', created_at := 300\<rparr>) \<and>
   update_lead all_well ''id-2'' no_changes three_leads =
     (Inr \<lparr>rm_success = True, rm_message = ''No changes to update''\<rparr>, three_leads) \<and>
   no_changes\<lparr>upd_status := Some QUALIFIED\<rparr> \<noteq> no_changes \<and>
   update_lead all_well ''id-2'' (no_changes\<lparr>upd_status := Some QUALIFIED\<rparr>) three_leads =
     (Inl (HTTPException 500 ''Failed to update lead''), three_leads) \<and>
   map updated_at (leads three_leads) = [100, 100, 100]"
  using nonempty_update_fails
    [of all_well "''id-2''" three_leads "lead1\<lparr>lead_id := ''id-2'', created_at := 300\<rparr>"
        "no_changes\<lparr>upd_status := Some QUALIFIED\<rparr>"]
    status_of_id_2(1) qualify_id_2
  by (simp add: all_well_def)

section \<open>The listing\<close>

lemma listing_samples:
  "get_leads newest_first all_well 0 50 None None three_leads = Inl ArgumentError"
  "admin_get_leads newest_first all_well 0 50 None None three_leads = Inl AttributeError"
  "get_leads newest_first all_well 0 0 None None three_leads = Inl ArgumentError"
  "admin_get_leads newest_first all_well 0 0 None None three_leads = Inl AttributeError"
  by code_simp+

text \<open>
  Claim C7.  No request for a page is answered: \<open>LeadService.get_leads\<close> sends its count
  query with the values \<open>skip\<close> and \<open>limit\<close>, which the text of that query does not name,
  so the call raises for every offset, limit, filter and table, before any row is read,
  ordered or counted; the error clause of the endpoint then raises \<open>AttributeError\<close>.
  So it is for the request with offset 0 and limit 50 on a table of three leads.
\<close>

theorem listing_never_answers:
  "get_leads ordered cond skip limit st src w =
     Inl (if db_online cond then ArgumentError else DatabaseError) \<and>
   admin_get_leads ordered cond skip limit st src w = Inl AttributeError \<and>
   get_leads newest_first all_well 0 50 None None three_leads = Inl ArgumentError \<and>
   admin_get_leads newest_first all_well 0 50 None None three_leads = Inl AttributeError"
  by (intro conjI get_leads_raises admin_get_leads_raises listing_samples)

section \<open>The page numbers and the limit\<close>





section \<open>The order of the validation rules\<close>

lemma scan_patterns_ex:
  "scan_patterns ps t =
     (if list_ex (\<lambda>p. re_search p t) ps then Inl (HTTPException 400 ''Invalid characters detected'')
      else Inr ())"
  by (induction ps) simp_all

lemma strip_Nil: "strip [] = []"
  by (simp add: strip_def)

lemma validate_email_format_Nil: "\<not> validate_email_format []"
  by code_simp

lemma validate_phone_format_Nil: "\<not> validate_phone_format []"
  by (simp add: validate_phone_format_def clean_phone_def)

lemma validate_request_data_rules:
  "validate_request_data r =
     (if violates Name r then Inl (failure Name r)
      else if violates Email r then Inl (failure Email r)
      else if violates Phone r then Inl (failure Phone r)
      else if violates Purpose r then Inl (failure Purpose r)
      else if violates SpamScan r then Inl (failure SpamScan r)
      else Inr ())"
  using validate_email_format_Nil validate_phone_format_Nil
  by (auto simp: validate_request_data_def scan_patterns_ex strip_Nil)

text \<open>The rejections of the handler, in the order of its checks.\<close>

lemma request_cv_rules:
  "request_cv cond env r w =
     (if violates Honeypot r then (Inl (failure Honeypot r), w)
      else if violates Name r then (Inl (failure Name r), w)
      else if violates Email r then (Inl (failure Email r), w)
      else if violates Phone r then (Inl (failure Phone r), w)
      else if violates Purpose r then (Inl (failure Purpose r), w)
      else if violates SpamScan r then (Inl (failure SpamScan r), w)
      else if violates Consent r then (Inl (failure Consent r), w)
      else request_cv cond env r w)"
  by (simp add: request_cv_def request_cv_try_def validate_request_data_rules validate_honeypot_def)

section \<open>The order of the checks on the route\<close>

lemma script_body_facts:
  "parse_CVRequest with_at script_body = Inr (john\<lparr>purpose := Some ''javascript:alert(1)''\<rparr>)"
  "first_violation handler_order (john\<lparr>purpose := Some ''javascript:alert(1)''\<rparr>)
     = Some SpamScan"
  "failure SpamScan (john\<lparr>purpose := Some ''javascript:alert(1)''\<rparr>)
     = HTTPException 400 ''Invalid characters detected''"
  "post_request_cv with_at all_well env1 script_body empty_world =
     (Inl (HTTPException 400 ''Invalid characters detected''), empty_world)"
  "\<not> b_consent script_no_consent_body"
  "violates Consent (unparsed script_no_consent_body)"
  "violates SpamScan (unparsed script_no_consent_body)"
  "post_request_cv with_at all_well env1 script_no_consent_body empty_world =
     (Inl (RequestValidationError [(''consent'', ''Consent is required'')]), empty_world)"
  "first_violation handler_order john = None" "consent john"
  by code_simp+

lemma short_phone_facts:
  "violates Honeypot (unparsed honeypot_short_phone_body)"
  "first_violation specified_order (unparsed honeypot_short_phone_body) = Some Honeypot"
  "failure Honeypot (unparsed honeypot_short_phone_body) = HTTPException 400 ''Invalid request''"
  "parse_CVRequest with_at honeypot_short_phone_body =
     Inl (RequestValidationError
            [(''phone'', ''Phone number must be at least 10 characters long'')])"
  "post_request_cv with_at all_well env1 honeypot_short_phone_body empty_world =
     (Inl (RequestValidationError
             [(''phone'', ''Phone number must be at least 10 characters long'')]),
      empty_world)"
  by code_simp+

text \<open>
  Claim C1, as amended.  The route checks a submission in two stages.  First the schema
  validates the fields name, email, phone, purpose and consent, and a body with a
  failed field is refused with all its failed fields, the state left as it was.  A
  body that the schema accepts then meets the handler's rules in the fixed order
  honeypot, name, email, phone, purpose, cross-field spam scan, and the failure of the
  first rule violated is reported, the state left as it was (consent is never that
  rule, a parsed request has it); when no rule is violated the honeypot check and
  \<open>validate_request_data\<close> pass.  In particular a submission without consent is refused
  with the consent failure ``Consent is required'' among its failures, whether or not it
  also violates the spam-scan rule, because the schema checks consent when the body is
  parsed, before the spam scan runs.
\<close>

theorem route_validation_order:
  "(parse_CVRequest E body = Inl x \<longrightarrow>
      post_request_cv E cond env body w = (Inl x, w) \<and>
      x = RequestValidationError (schema_errors E body) \<and> schema_errors E body \<noteq> []) \<and>
   (parse_CVRequest E body = Inr r \<and> first_violation handler_order r = Some k \<longrightarrow>
      post_request_cv E cond env body w = (Inl (failure k r), w) \<and> k \<noteq> Consent) \<and>
   (parse_CVRequest E body = Inr r \<and> first_violation handler_order r = None \<longrightarrow>
      validate_honeypot (website r) \<and> validate_request_data r = Inr () \<and> consent r) \<and>
   (\<not> b_consent body \<longrightarrow>
      post_request_cv E cond env body w =
        (Inl (RequestValidationError (schema_errors E body)), w) \<and>
      (''consent'', ''Consent is required'') \<in> set (schema_errors E body))"
proof -
  have 1: "parse_CVRequest E body = Inl x \<longrightarrow>
      post_request_cv E cond env body w = (Inl x, w) \<and>
      x = RequestValidationError (schema_errors E body) \<and> schema_errors E body \<noteq> []"
    using parse_CVRequest_Inl [of E body x] by (simp add: post_request_cv_refused)
  have 2: "parse_CVRequest E body = Inr r \<and> first_violation handler_order r = Some k \<longrightarrow>
      post_request_cv E cond env body w = (Inl (failure k r), w) \<and> k \<noteq> Consent"
  proof
    assume a: "parse_CVRequest E body = Inr r \<and> first_violation handler_order r = Some k"
    then have c: "consent r" using parse_CVRequest_Inr(4) by blast
    have p: "post_request_cv E cond env body w = request_cv cond env r w"
      using a by (simp add: post_request_cv_parsed)
    have "request_cv cond env r w = (Inl (failure k r), w) \<and> k \<noteq> Consent"
      using a c unfolding first_violation_def handler_order_def
      by (subst request_cv_rules) (auto split: if_splits)
    then show "post_request_cv E cond env body w = (Inl (failure k r), w) \<and> k \<noteq> Consent"
      using p by simp
  qed
  have 3: "parse_CVRequest E body = Inr r \<and> first_violation handler_order r = None \<longrightarrow>
      validate_honeypot (website r) \<and> validate_request_data r = Inr () \<and> consent r"
    unfolding first_violation_def handler_order_def
    by (auto simp: validate_request_data_rules validate_honeypot_def split: if_splits)
  have 4: "\<not> b_consent body \<longrightarrow>
      post_request_cv E cond env body w =
        (Inl (RequestValidationError (schema_errors E body)), w) \<and>
      (''consent'', ''Consent is required'') \<in> set (schema_errors E body)"
  proof
    assume n: "\<not> b_consent body"
    then have m: "(''consent'', ''Consent is required'') \<in> set (schema_errors E body)"
      by (rule no_consent_errors)
    then have "schema_errors E body \<noteq> []" by auto
    then have "parse_CVRequest E body = Inl (RequestValidationError (schema_errors E body))"
      by (simp add: parse_CVRequest_cases)
    then show "post_request_cv E cond env body w =
        (Inl (RequestValidationError (schema_errors E body)), w) \<and>
      (''consent'', ''Consent is required'') \<in> set (schema_errors E body)"
      using m by (simp add: post_request_cv_refused)
  qed
  show ?thesis using 1 2 3 4 by blast
qed

theorem route_validation_order_witness:
  "parse_CVRequest with_at honeypot_short_phone_body =
     Inl (RequestValidationError
            [(''phone'', ''Phone number must be at least 10 characters long'')]) \<and>
   post_request_cv with_at all_well env1 honeypot_short_phone_body empty_world =
     (Inl (RequestValidationError
             [(''phone'', ''Phone number must be at least 10 characters long'')]),
      empty_world) \<and>
   parse_CVRequest with_at script_body = Inr (john\<lparr>purpose := Some ''javascript:alert(1)''\<rparr>) \<and>
   first_violation handler_order (john\<lparr>purpose := Some ''javascript:alert(1)''\<rparr>)
     = Some SpamScan \<and>
   post_request_cv with_at all_well env1 script_body empty_world =
     (Inl (HTTPException 400 ''Invalid characters detected''), empty_world) \<and>
   parse_CVRequest with_at john_body = Inr john \<and>
   first_violation handler_order john = None \<and>
   validate_honeypot (website john) \<and> validate_request_data john = Inr () \<and> consent john \<and>
   \<not> b_consent script_no_consent_body \<and>
   violates SpamScan (unparsed script_no_consent_body) \<and>
   post_request_cv with_at all_well env1 script_no_consent_body empty_world =
     (Inl (RequestValidationError [(''consent'', ''Consent is required'')]), empty_world)"
  using route_validation_order
      [where E = with_at and body = honeypot_short_phone_body and cond = all_well and
         env = env1 and w = empty_world and
         x = "RequestValidationError
                [(''phone'', ''Phone number must be at least 10 characters long'')]"]
    route_validation_order
      [where E = with_at and body = script_body and cond = all_well and env = env1 and
         w = empty_world and r = "john\<lparr>purpose := Some ''javascript:alert(1)''\<rparr>" and
         k = SpamScan]
    route_validation_order
      [where E = with_at and body = john_body and cond = all_well and env = env1 and
         w = empty_world and r = john]
    route_validation_order
      [where E = with_at and body = script_no_consent_body and cond = all_well and
         env = env1 and w = empty_world]
    script_body_facts short_phone_facts body_facts john_valid
  by simp

text \<open>
  The claim as stated fails: this submission has the honeypot filled in and a phone of
  three characters, so the honeypot rule is the first violated rule of the specified
  order; the route reports the failure of the phone field, found by the schema before
  the honeypot check runs.
\<close>

theorem honeypot_not_first_counterexample:
  "first_violation specified_order (unparsed honeypot_short_phone_body) = Some Honeypot \<and>
   failure Honeypot (unparsed honeypot_short_phone_body) = HTTPException 400 ''Invalid request'' \<and>
   post_request_cv with_at all_well env1 honeypot_short_phone_body empty_world =
     (Inl (RequestValidationError
             [(''phone'', ''Phone number must be at least 10 characters long'')]),
      empty_world)"
  using short_phone_facts by simp

section \<open>The phone rule\<close>

lemma validated_phone: "validate_request_data r = Inr () \<Longrightarrow> validate_phone_format (phone r)"
  by (simp add: validate_request_data_rules split: if_splits)

lemma digit_count_all: "list_all is_digit ds \<Longrightarrow> digit_count ds = length ds"
  by (simp add: digit_count_def list_all_iff)

lemma normalized_digit_count:
  "normalized_phone s \<Longrightarrow> 10 \<le> digit_count s \<and> digit_count s \<le> 15"
proof (cases s)
  case Nil
  assume "normalized_phone s"
  with Nil show ?thesis by (simp add: normalized_phone_def)
next
  case (Cons c cs)
  assume n: "normalized_phone s"
  show ?thesis
  proof (cases "c = CHR ''+''")
    case True
    then have "list_all is_digit cs \<and> 10 \<le> length cs \<and> length cs \<le> 15"
      using n Cons by (simp add: normalized_phone_def)
    moreover have "digit_count s = digit_count cs"
      using Cons True is_digit_plus [of c] by (auto simp: digit_count_def)
    ultimately show ?thesis by (simp add: digit_count_all)
  next
    case False
    then have "list_all is_digit s \<and> 10 \<le> length s \<and> length s \<le> 15"
      using n Cons by (simp add: normalized_phone_def)
    then show ?thesis by (simp add: digit_count_all)
  qed
qed

lemma specified_phone_rule_iff: "specified_phone_rule p \<longleftrightarrow> normalized_phone (clean_phone p)"
  using clean_phone_no_newline [of p] normalized_digit_count [of "clean_phone p"]
  by (auto simp: specified_phone_rule_def Let_def re_match_anchored_def matches_phone_pattern)

lemma normalized_length: "normalized_phone s \<Longrightarrow> 10 \<le> length s"
  by (cases s) (auto simp: normalized_phone_def split: if_splits)

text \<open>
  Claim C3.  The check accepts a phone exactly when the specified rule accepts it and
  the stripped string, plus sign included, has at most 15 characters.  The inputs of
  the claim come out as it says (\<open>123\<close> rejected, \<open>+1-555-0123-4567\<close> accepted), but a plus
  sign followed by 15 digits is rejected although it has 15 digits and matches the
  pattern.
\<close>

theorem phone_length_counts_plus_sign:
  "(validate_phone_format p \<longleftrightarrow> specified_phone_rule p \<and> length (clean_phone p) \<le> 15) \<and>
   specified_phone_rule ''+123456789012345'' \<and>
   \<not> validate_phone_format ''+123456789012345'' \<and>
   \<not> validate_phone_format ''123'' \<and>
   validate_phone_format ''+1-555-0123-4567''"
proof -
  have "validate_phone_format p \<longleftrightarrow> specified_phone_rule p \<and> length (clean_phone p) \<le> 15"
    using normalized_length [of "clean_phone p"]
    by (auto simp: validate_phone_format_iff specified_phone_rule_iff)
  moreover have "specified_phone_rule ''+123456789012345''" by code_simp
  moreover have "\<not> validate_phone_format ''+123456789012345''" by code_simp
  moreover have "\<not> validate_phone_format ''123''" by code_simp
  moreover have "validate_phone_format ''+1-555-0123-4567''" by code_simp
  ultimately show ?thesis by blast
qed

section \<open>The phone that is stored\<close>

lemma request_cv_success:
  assumes "request_cv cond env r w = (Inr resp, w')"
  shows "validate_request_data r = Inr () \<and> request_id resp = uuid4 env \<and>
         (\<exists>l. get_lead_by_id cond (uuid4 env) w' = Inr (Some l) \<and> lead_phone l = phone r)"
  using assms
  by (auto simp: request_cv_def request_cv_try_def create_lead_def send_cv_email_def
        send_email_cases get_lead_by_id_def find_append_fresh
      split: if_splits sum.splits prod.splits)

lemma dashed_accepted:
  "request_cv all_well env1 dashed empty_world =
     (Inr \<lparr>success = True,
           message = ''CV request processed successfully. You should receive the CV via email shortly.'',
           request_id = ''id-1'', timestamp = 100\<rparr>,
      \<lparr>leads = [lead1\<lparr>lead_phone := ''+1-555-0123-4567''\<rparr>],
       smtp_calls = [\<lparr>mail_to = ''john@x.com'',
                      mail_subject = ''Charles Nwankpa - AI Product Engineer CV'',
                      mail_attachment = Some ''%PDF''\<rparr>]\<rparr>)"
  by code_simp

lemma dashed_facts:
  "phone dashed = ''+1-555-0123-4567''"
  "\<not> normalized_phone ''+1-555-0123-4567''"
  "clean_phone ''+1-555-0123-4567'' = ''+155501234567''"
  "normalized_phone ''+155501234567''"
  "validate_phone_format ''+1-555-0123-4567''"
  "get_lead_by_id all_well ''id-1''
      \<lparr>leads = [lead1\<lparr>lead_phone := ''+1-555-0123-4567''\<rparr>],
       smtp_calls = [\<lparr>mail_to = ''john@x.com'',
                      mail_subject = ''Charles Nwankpa - AI Product Engineer CV'',
                      mail_attachment = Some ''%PDF''\<rparr>]\<rparr>
     = Inr (Some (lead1\<lparr>lead_phone := ''+1-555-0123-4567''\<rparr>))"
  by code_simp+

lemma dashed_body_facts:
  "parse_CVRequest with_at dashed_body = Inr dashed"
  "strip (b_phone dashed_body) = ''+1-555-0123-4567''"
  "post_request_cv with_at all_well env1 dashed_body empty_world =
     request_cv all_well env1 dashed empty_world"
  by code_simp+

text \<open>
  Claim C5, as amended.  The lead that a successful \<open>request_cv\<close> stores carries the
  phone of the request exactly as the handler received it, which on the route is the
  submitted phone with the surrounding whitespace removed by the schema.  What is in
  normalized form, an optional leading plus sign and 10 to 15 digits, is the string
  left after removing every character other than digits and plus signs from it, not
  the stored string itself.
\<close>

theorem stored_phone_is_raw:
  "(request_cv cond env r w = (Inr resp, w') \<longrightarrow>
      (\<exists>l. get_lead_by_id cond (request_id resp) w' = Inr (Some l) \<and>
           lead_phone l = phone r \<and>
           normalized_phone (clean_phone (lead_phone l)))) \<and>
   (post_request_cv E cond env body w = (Inr resp, w') \<longrightarrow>
      (\<exists>l. get_lead_by_id cond (request_id resp) w' = Inr (Some l) \<and>
           lead_phone l = strip (b_phone body) \<and>
           normalized_phone (clean_phone (lead_phone l))))"
proof -
  have handler: "\<exists>l. get_lead_by_id cond (request_id resp) w' = Inr (Some l) \<and>
           lead_phone l = phone q \<and> normalized_phone (clean_phone (lead_phone l))"
    if a: "request_cv cond env q w = (Inr resp, w')" for q
  proof -
    from request_cv_success [OF a] obtain l where
      v: "validate_request_data q = Inr ()" and i: "request_id resp = uuid4 env" and
      g: "get_lead_by_id cond (uuid4 env) w' = Inr (Some l)" and p: "lead_phone l = phone q"
      by blast
    have "validate_phone_format (phone q)" using v by (rule validated_phone)
    then show ?thesis using g p i by (auto simp: validate_phone_format_iff)
  qed
  have route: "\<exists>l. get_lead_by_id cond (request_id resp) w' = Inr (Some l) \<and>
           lead_phone l = strip (b_phone body) \<and> normalized_phone (clean_phone (lead_phone l))"
    if b: "post_request_cv E cond env body w = (Inr resp, w')"
  proof (cases "parse_CVRequest E body")
    case (Inl x)
    then show ?thesis using b by (simp add: post_request_cv_refused)
  next
    case (Inr q)
    then have "request_cv cond env q w = (Inr resp, w')"
      using b by (simp add: post_request_cv_parsed)
    then show ?thesis using handler [of q] parse_CVRequest_Inr(3) [OF Inr] by simp
  qed
  show ?thesis using handler route by blast
qed

theorem stored_phone_is_raw_witness:
  "request_cv all_well env1 dashed empty_world =
     (Inr \<lparr>success = True,
           message = ''CV request processed successfully. You should receive the CV via email shortly.'',
           request_id = ''id-1'', timestamp = 100\<rparr>,
      \<lparr>leads = [lead1\<lparr>lead_phone := ''+1-555-0123-4567''\<rparr>],
       smtp_calls = [\<lparr>mail_to = ''john@x.com'',
                      mail_subject = ''Charles Nwankpa - AI Product Engineer CV'',
                      mail_attachment = Some ''%PDF''\<rparr>]\<rparr>) \<and>
   post_request_cv with_at all_well env1 dashed_body empty_world =
     request_cv all_well env1 dashed empty_world \<and>
   get_lead_by_id all_well ''id-1''
      \<lparr>leads = [lead1\<lparr>lead_phone := ''+1-555-0123-4567''\<rparr>],
       smtp_calls = [\<lparr>mail_to = ''john@x.com'',
                      mail_subject = ''Charles Nwankpa - AI Product Engineer CV'',
                      mail_attachment = Some ''%PDF''\<rparr>]\<rparr>
     = Inr (Some (lead1\<lparr>lead_phone := ''+1-555-0123-4567''\<rparr>)) \<and>
   phone dashed = ''+1-555-0123-4567'' \<and>
   strip (b_phone dashed_body) = ''+1-555-0123-4567'' \<and>
   normalized_phone (clean_phone ''+1-555-0123-4567'')"
  using stored_phone_is_raw
      [where cond = all_well and env = env1 and r = dashed and w = empty_world and
         E = with_at and body = dashed_body and
         resp = "\<lparr>success = True,
           message = ''CV request processed successfully. You should receive the CV via email shortly.'',
           request_id = ''id-1'', timestamp = 100\<rparr>" and
         w' = "\<lparr>leads = [lead1\<lparr>lead_phone := ''+1-555-0123-4567''\<rparr>],
       smtp_calls = [\<lparr>mail_to = ''john@x.com'',
                      mail_subject = ''Charles Nwankpa - AI Product Engineer CV'',
                      mail_attachment = Some ''%PDF''\<rparr>]\<rparr>"]
    dashed_accepted dashed_facts dashed_body_facts
  by simp

text \<open>
  The claim as stated fails: the submission is accepted and its lead is stored with the
  dashes of the submitted phone, which is not in normalized form.
\<close>

theorem stored_phone_counterexample:
  "map lead_phone (leads (snd (request_cv all_well env1 dashed empty_world)))
     = [''+1-555-0123-4567''] \<and>
   \<not> normalized_phone ''+1-555-0123-4567'' \<and>
   clean_phone ''+1-555-0123-4567'' = ''+155501234567'' \<and>
   normalized_phone ''+155501234567''"
  using dashed_accepted dashed_facts by (simp add: lead1_def)

end
